theory Spec2Isabelle
  imports Complex_Main "HOL-Library.Word"
begin

section \<open>Numbers and helper functions\<close>

text \<open>
  The template parameter \<open>Number\<close> of the Riemann solver (\<open>double\<close> in the observed
  configuration) is modelled by \<^typ>\<open>real\<close>: every operation is the exact one, and
  rounding and the special values of IEEE arithmetic (infinities, NaN) have no
  counterpart. The theorems about the solver carry the admissibility hypotheses under
  which every division, square root and power of the source stays inside the domain of
  the real operation. What depends on rounding, such as the sign of a quantity that is
  zero in exact arithmetic, is outside this model.
\<close>

type_synonym Number = real

text \<open>
  Modelled from the spec: \<open>positive_part\<close> and \<open>negative_part\<close> are declared in
  \<open>simd.h\<close>, which is not among the sources. The spec (4.1, step 5) reads them as the
  positive part and as "the negative part (absolute value)" of a number.
\<close>

definition positive_part :: "Number \<Rightarrow> Number" where
  "positive_part number = max 0 number"

definition negative_part :: "Number \<Rightarrow> Number" where
  "negative_part number = - min 0 number"

text \<open>
  \<open>ryujin::pow\<close> (\<open>simd.h\<close>) is \<open>std::pow\<close> on scalars. On a positive base, and on base
  zero with a positive exponent, it is the real power \<^term>\<open>x powr b\<close>.
\<close>

definition ryujin_pow :: "Number \<Rightarrow> Number \<Rightarrow> Number" where
  "ryujin_pow x b = x powr b"

text \<open>
  \<open>dealii::compare_and_apply_mask<SIMDComparison::less_than>(l, r, t, f)\<close> on scalars is
  \<open>l < r ? t : f\<close>.
\<close>

definition compare_and_apply_mask_less_than ::
  "Number \<Rightarrow> Number \<Rightarrow> Number \<Rightarrow> Number \<Rightarrow> Number" where
  "compare_and_apply_mask_less_than l r true_value false_value =
     (if l < r then true_value else false_value)"


section \<open>The hyperbolic system and the 1D Riemann data\<close>

text \<open>
  Modelled from the spec: \<open>hyperbolic_system.h\<close> is not among the sources. The solver
  reads three constants from it, the adiabatic exponent \<open>gamma\<close> and its derived
  values, named after what they hold.
\<close>

record hyperbolic_system =
  gamma :: Number

definition gamma_inverse :: "hyperbolic_system \<Rightarrow> Number" where
  "gamma_inverse hs = 1 / gamma hs"

definition gamma_minus_one_inverse :: "hyperbolic_system \<Rightarrow> Number" where
  "gamma_minus_one_inverse hs = 1 / (gamma hs - 1)"

text \<open>
  \<open>primitive_type\<close> is \<open>std::array<Number, 4>\<close>, read by the source through the
  structured binding \<open>[rho, u, p, a]\<close>: density, normal velocity, pressure and speed of
  sound.
\<close>

type_synonym primitive_type = "Number \<times> Number \<times> Number \<times> Number"

text \<open>
  Modelled from the spec: the admissibility predicate belongs to the equation interface
  (\<open>hyperbolic_system.h\<close>). On 1D Riemann data the spec's "positive density and
  pressure" is read together with a positive speed of sound.
\<close>

definition admissible :: "primitive_type \<Rightarrow> bool" where
  "admissible riemann_data =
     (case riemann_data of (rho, u, p, a) \<Rightarrow> 0 < rho \<and> 0 < p \<and> 0 < a)"


section \<open>The approximate Riemann solver (\<open>euler/riemann_solver.template.h\<close>)\<close>

definition phi_of_p_max ::
  "hyperbolic_system \<Rightarrow> primitive_type \<Rightarrow> primitive_type \<Rightarrow> Number" where
  "phi_of_p_max hs riemann_data_i riemann_data_j =
     (case riemann_data_i of (rho_i, u_i, p_i, a_i) \<Rightarrow>
      case riemann_data_j of (rho_j, u_j, p_j, a_j) \<Rightarrow>
        let p_max = max p_i p_j;
            radicand_inverse_i =
              0.5 * rho_i * ((gamma hs + 1) * p_max + (gamma hs - 1) * p_i);
            value_i = (p_max - p_i) / sqrt radicand_inverse_i;
            radicand_inverse_j =
              0.5 * rho_j * ((gamma hs + 1) * p_max + (gamma hs - 1) * p_j);
            value_j = (p_max - p_j) / sqrt radicand_inverse_j
        in value_i + value_j + u_j - u_i)"

definition lambda1_minus :: "hyperbolic_system \<Rightarrow> primitive_type \<Rightarrow> Number \<Rightarrow> Number" where
  "lambda1_minus hs riemann_data p_star =
     (case riemann_data of (rho, u, p, a) \<Rightarrow>
        let inv_p = 1 / p;
            factor = (gamma hs + 1) * 0.5 * gamma_inverse hs;
            tmp = positive_part ((p_star - p) * inv_p)
        in u - a * sqrt (1 + factor * tmp))"

definition lambda3_plus :: "hyperbolic_system \<Rightarrow> primitive_type \<Rightarrow> Number \<Rightarrow> Number" where
  "lambda3_plus hs primitive_state p_star =
     (case primitive_state of (rho, u, p, a) \<Rightarrow>
        let inv_p = 1 / p;
            factor = (gamma hs + 1) * 0.5 * gamma_inverse hs;
            tmp = positive_part ((p_star - p) * inv_p)
        in u + a * sqrt (1 + factor * tmp))"

definition compute_lambda ::
  "hyperbolic_system \<Rightarrow> primitive_type \<Rightarrow> primitive_type \<Rightarrow> Number \<Rightarrow> Number" where
  "compute_lambda hs riemann_data_i riemann_data_j p_star =
     (let nu_11 = lambda1_minus hs riemann_data_i p_star;
          nu_32 = lambda3_plus hs riemann_data_j p_star
      in max (positive_part nu_32) (negative_part nu_11))"

definition p_star_two_rarefaction ::
  "hyperbolic_system \<Rightarrow> primitive_type \<Rightarrow> primitive_type \<Rightarrow> Number" where
  "p_star_two_rarefaction hs riemann_data_i riemann_data_j =
     (case riemann_data_i of (rho_i, u_i, p_i, a_i) \<Rightarrow>
      case riemann_data_j of (rho_j, u_j, p_j, a_j) \<Rightarrow>
        let inv_p_j = 1 / p_j;
            factor = (gamma hs - 1) * 0.5;
            numerator = positive_part (a_i + a_j - factor * (u_j - u_i));
            denominator =
              a_i * ryujin_pow (p_i * inv_p_j) (- factor * gamma_inverse hs) + a_j;
            exponent = 2.0 * gamma hs * gamma_minus_one_inverse hs
        in p_j * ryujin_pow (numerator / denominator) exponent)"

text \<open>
  \<open>RiemannSolver::compute\<close> on 1D Riemann data; \<open>riemann_data_i[2]\<close> is the pressure.
\<close>

definition pressure :: "primitive_type \<Rightarrow> Number" where
  "pressure riemann_data = (case riemann_data of (rho, u, p, a) \<Rightarrow> p)"

definition compute ::
  "hyperbolic_system \<Rightarrow> primitive_type \<Rightarrow> primitive_type \<Rightarrow> Number" where
  "compute hs riemann_data_i riemann_data_j =
     (let p_max = max (pressure riemann_data_i) (pressure riemann_data_j);
          p_star_tilde = p_star_two_rarefaction hs riemann_data_i riemann_data_j;
          phi_p_max = phi_of_p_max hs riemann_data_i riemann_data_j;
          p_2 = compare_and_apply_mask_less_than phi_p_max 0
                  p_star_tilde (min p_max p_star_tilde)
      in compute_lambda hs riemann_data_i riemann_data_j p_2)"


section \<open>The solver with optional Newton refinement (\<open>grendel/riemann_solver.h\<close>)\<close>

text \<open>
  The two compile-time options of the class: \<open>newton_eps_ = 1.0e-10\<close> and
  \<open>newton_max_iter_ = 0\<close>; the latter is the default of the template parameter
  \<open>max_iter\<close> of \<open>compute\<close>.
\<close>

definition newton_eps :: Number where
  "newton_eps = 1 / 10 ^ 10"

definition newton_max_iter :: nat where
  "newton_max_iter = 0"

text \<open>
  The pressure that the closed form selects, in the words of the spec (4.1, step 4): the
  sign of \<open>phi\<close> at \<open>p_max\<close> selects \<open>p_star_tilde\<close>, or \<open>p_star_tilde\<close> clamped by
  \<open>p_max\<close>.
\<close>

definition zero_iteration_pressure ::
  "hyperbolic_system \<Rightarrow> primitive_type \<Rightarrow> primitive_type \<Rightarrow> Number" where
  "zero_iteration_pressure hs riemann_data_i riemann_data_j =
     (let p_max = max (pressure riemann_data_i) (pressure riemann_data_j);
          p_star_tilde = p_star_two_rarefaction hs riemann_data_i riemann_data_j
      in if phi_of_p_max hs riemann_data_i riemann_data_j < 0 then p_star_tilde
         else min p_max p_star_tilde)"

text \<open>
  Modelled from the spec: the body of \<open>grendel::RiemannSolver::compute\<close> is not among
  the sources, only its declaration is, which documents the result as the tuple of
  \<open>lambda_max\<close>, \<open>p_star\<close> and the number of Newton iterations used. The spec (4.1)
  has an optional Newton refinement with a bounded iteration count that "must converge
  or fall back to the zero-iteration closed form". The refinement step and its
  convergence test are parameters; a refinement that exhausts its budget without
  converging falls back to the closed form.
\<close>

fun newton_iteration ::
  "nat \<Rightarrow> (Number \<Rightarrow> Number) \<Rightarrow> (Number \<Rightarrow> bool) \<Rightarrow> Number \<Rightarrow> nat \<Rightarrow> (Number \<times> nat) option" where
  "newton_iteration 0 refine converged p_2 i = None"
| "newton_iteration (Suc budget) refine converged p_2 i =
     (let p_next = refine p_2
      in if converged p_next then Some (p_next, Suc i)
         else newton_iteration budget refine converged p_next (Suc i))"

definition grendel_compute ::
  "nat \<Rightarrow> (Number \<Rightarrow> Number) \<Rightarrow> (Number \<Rightarrow> bool) \<Rightarrow>
   hyperbolic_system \<Rightarrow> primitive_type \<Rightarrow> primitive_type \<Rightarrow> Number \<times> Number \<times> nat" where
  "grendel_compute max_iter refine converged hs riemann_data_i riemann_data_j =
     (let p_2 = zero_iteration_pressure hs riemann_data_i riemann_data_j
      in case newton_iteration max_iter refine converged p_2 0 of
           Some (p_star, i) \<Rightarrow>
             (compute_lambda hs riemann_data_i riemann_data_j p_star, p_star, i)
         | None \<Rightarrow>
             (compute_lambda hs riemann_data_i riemann_data_j p_2, p_2, 0))"


section \<open>The time-stepping module (\<open>euler_module.h\<close>)\<close>

datatype IDViolationStrategy = warn | raise_exception

text \<open>\<open>class Restart final {}\<close>: the signal thrown on a restart has no member.\<close>

datatype Restart = Restart

text \<open>
  The members of \<open>EulerModule\<close> that the violation handling reads and writes; the two
  counters are \<open>unsigned int\<close>.
\<close>

record EulerModule =
  id_violation_strategy :: IDViolationStrategy
  n_restarts :: "32 word"
  n_warnings :: "32 word"

text \<open>
  What a completed call of \<open>step\<close> leaves behind: the step size with which the update
  written to \<open>new_U\<close> was performed, and the \<open>Number\<close> the call returns.
\<close>

record step_outcome =
  tau_performed :: Number
  return_value :: Number

text \<open>
  Modelled from the spec: the body of \<open>EulerModule::step\<close> is in
  \<open>euler_module.template.h\<close>, which is not among the sources; \<open>euler_module.h\<close> holds
  its declaration and documentation. The assembly of the update, the computation of
  \<open>tau_max\<close> and the two checks at the end of the step are not modelled: the computed
  \<open>tau_max\<close> and the outcomes of the admissibility check and of the tolerance check are
  inputs. The choice of the step size follows the spec (4.4) and the documentation of the
  declaration ("performed with either tau_max (if tau is set to 0), or tau (if tau is
  nonzero)"); the returned value follows the documentation of the declaration ("The
  function returns the computed maximal time step size tau_max"); the handling of a
  violation follows the spec (4.4) and the documentation of \<open>IDViolationStrategy\<close>, with
  the thrown \<open>Restart\<close> as the left summand of the result.
\<close>

definition step ::
  "EulerModule \<Rightarrow> Number \<Rightarrow> bool \<Rightarrow> bool \<Rightarrow> Number \<Rightarrow> (Restart + step_outcome) \<times> EulerModule" where
  "step euler_module tau_max admissibility_ok tolerance_ok tau =
     (let tau_used = (if tau = 0 then tau_max else tau);
          restart_needed = (\<not> admissibility_ok \<or> \<not> tolerance_ok);
          outcome = \<lparr>tau_performed = tau_used, return_value = tau_max\<rparr>
      in if restart_needed then
           (case id_violation_strategy euler_module of
              warn \<Rightarrow> (Inr outcome, euler_module\<lparr>n_warnings := n_warnings euler_module + 1\<rparr>)
            | raise_exception \<Rightarrow> (Inl Restart, euler_module\<lparr>n_restarts := n_restarts euler_module + 1\<rparr>))
         else (Inr outcome, euler_module))"


section \<open>The paraboloid initial state (\<open>shallow_water/initial_state_paraboloid.h\<close>)\<close>
























section \<open>Properties of the wave-speed estimate\<close>

subsection \<open>Auxiliary facts\<close>

lemma positive_part_nonneg: "0 \<le> positive_part x"
  by (simp add: positive_part_def)

lemma negative_part_nonneg: "0 \<le> negative_part x"
  by (simp add: negative_part_def)

lemma compute_lambda_nonneg: "0 \<le> compute_lambda hs ri rj p_star"
  by (simp add: compute_lambda_def Let_def positive_part_nonneg le_max_iff_disj)

lemma compute_zero_iteration:
  "compute hs ri rj = compute_lambda hs ri rj (zero_iteration_pressure hs ri rj)"
  by (simp add: compute_def zero_iteration_pressure_def Let_def
        compare_and_apply_mask_less_than_def)

lemma factor_eq: "(g + 1) * 0.5 * (1 / g) = (g + 1) / (2 * g)" for g :: real
  by simp

lemma p_star_two_rarefaction_power_law:
  "p_star_two_rarefaction hs (rho_i, u_i, p_i, a_i) (rho_j, u_j, p_j, a_j) =
     p_j * (positive_part (a_i + a_j - (gamma hs - 1) / 2 * (u_j - u_i)) /
            (a_i * (p_i / p_j) powr (- (gamma hs - 1) / (2 * gamma hs)) + a_j))
           powr (2 * gamma hs / (gamma hs - 1))"
proof -
  have e1: "(gamma hs - 1) * 0.5 = (gamma hs - 1) / 2" by simp
  have e2: "p_i * (1 / p_j) = p_i / p_j" by simp
  have e3: "- ((gamma hs - 1) / 2) * (1 / gamma hs) = - (gamma hs - 1) / (2 * gamma hs)"
    by (simp add: minus_divide_left)
  have e4: "2.0 * gamma hs * (1 / (gamma hs - 1)) = 2 * gamma hs / (gamma hs - 1)" by simp
  show ?thesis
    unfolding p_star_two_rarefaction_def Let_def ryujin_pow_def gamma_inverse_def
      gamma_minus_one_inverse_def prod.case e1 e2 e3 e4
    by (rule refl)
qed


subsection \<open>The selected pressure\<close>

text \<open>
  C4: the sign of \<open>phi\<close> at \<open>p_max = max(p_i, p_j)\<close> selects the right endpoint of the
  pressure bracket. If \<open>phi(p_max) < 0\<close> the endpoint is \<open>p_star_tilde\<close>, otherwise it is
  \<open>min(p_max, p_star_tilde)\<close>, so it is always \<open>p_star_tilde\<close> or \<open>p_max\<close>; \<open>lambda_max\<close>
  is computed from the endpoint selected.
\<close>

theorem compute_selects_bracket_endpoint:
  "(let p_max = max (pressure riemann_data_i) (pressure riemann_data_j);
        p_star_tilde = p_star_two_rarefaction hs riemann_data_i riemann_data_j;
        p_2 = (if phi_of_p_max hs riemann_data_i riemann_data_j < 0 then p_star_tilde
               else min p_max p_star_tilde)
    in compute hs riemann_data_i riemann_data_j =
         compute_lambda hs riemann_data_i riemann_data_j p_2 \<and>
       (p_2 = p_star_tilde \<or> p_2 = p_max))"
  by (simp add: compute_def compare_and_apply_mask_less_than_def Let_def min_def)


subsection \<open>The two-rarefaction pressure and its vacuum case\<close>

text \<open>
  C5: for admissible states and an adiabatic exponent above 1, the two-rarefaction
  estimate \<open>p_star_tilde\<close> is the closed-form power law
  \<open>p_j * (N\<^sup>+ / (a_i * (p_i / p_j) powr (- (gamma - 1) / (2 * gamma)) + a_j))
  powr (2 * gamma / (gamma - 1))\<close>, where \<open>N\<^sup>+\<close> is the positive part of the numerator
  \<open>N = a_i + a_j - (gamma - 1) / 2 * (u_j - u_i)\<close>. Whenever \<open>N\<close> is not positive (the
  vacuum case) the estimate is the zero-pressure limit 0; whenever \<open>N\<close> is positive the
  estimate is positive.
\<close>

theorem p_star_two_rarefaction_vacuum:
  assumes "1 < gamma hs"
    and "admissible (rho_i, u_i, p_i, a_i)" and "admissible (rho_j, u_j, p_j, a_j)"
  shows "p_star_two_rarefaction hs (rho_i, u_i, p_i, a_i) (rho_j, u_j, p_j, a_j) =
           p_j * (positive_part (a_i + a_j - (gamma hs - 1) / 2 * (u_j - u_i)) /
                  (a_i * (p_i / p_j) powr (- (gamma hs - 1) / (2 * gamma hs)) + a_j))
                 powr (2 * gamma hs / (gamma hs - 1)) \<and>
         (a_i + a_j - (gamma hs - 1) / 2 * (u_j - u_i) \<le> 0 \<longrightarrow>
            p_star_two_rarefaction hs (rho_i, u_i, p_i, a_i) (rho_j, u_j, p_j, a_j) = 0) \<and>
         (0 < a_i + a_j - (gamma hs - 1) / 2 * (u_j - u_i) \<longrightarrow>
            0 < p_star_two_rarefaction hs (rho_i, u_i, p_i, a_i) (rho_j, u_j, p_j, a_j))"
proof -
  define N where "N = a_i + a_j - (gamma hs - 1) / 2 * (u_j - u_i)"
  define D where "D = a_i * (p_i / p_j) powr (- (gamma hs - 1) / (2 * gamma hs)) + a_j"
  define E where "E = 2 * gamma hs / (gamma hs - 1)"
  have form: "p_star_two_rarefaction hs (rho_i, u_i, p_i, a_i) (rho_j, u_j, p_j, a_j) =
                p_j * (positive_part N / D) powr E"
    unfolding N_def D_def E_def by (rule p_star_two_rarefaction_power_law)
  have adm: "0 < p_j" "0 < a_i" "0 < a_j"
    using assms by (simp_all add: admissible_def)
  have "0 \<le> a_i * (p_i / p_j) powr (- (gamma hs - 1) / (2 * gamma hs))"
    using adm by simp
  with adm have d: "0 < D"
    unfolding D_def by linarith
  have vacuum: "p_j * (positive_part N / D) powr E = 0" if "N \<le> 0"
    using that by (simp add: positive_part_def)
  have regular: "0 < p_j * (positive_part N / D) powr E" if "0 < N"
  proof -
    from that have "0 < positive_part N" by (simp add: positive_part_def)
    with d have "0 < positive_part N / D" by (rule divide_pos_pos[rotated])
    then have "positive_part N / D \<noteq> 0" by linarith
    then have "0 < (positive_part N / D) powr E" by (rule iffD2[OF powr_gt_zero])
    with adm(1) show ?thesis by (rule mult_pos_pos)
  qed
  from form vacuum regular show ?thesis
    unfolding N_def D_def E_def by simp
qed

theorem p_star_two_rarefaction_vacuum_witness:
  "1 < gamma \<lparr>gamma = 7 / 5\<rparr> \<and> admissible (7, - 10, 5, 1) \<and> admissible (7, 10, 5, 1) \<and>
   admissible (7, 2, 5, 1) \<and>
   p_star_two_rarefaction \<lparr>gamma = 7 / 5\<rparr> (7, - 10, 5, 1) (7, 10, 5, 1) = 0 \<and>
   p_star_two_rarefaction \<lparr>gamma = 7 / 5\<rparr> (7, 2, 5, 1) (7, 2, 5, 1) = 5"
  using p_star_two_rarefaction_vacuum [of "\<lparr>gamma = 7 / 5\<rparr>" 7 "- 10" 5 1 7 10 5 1]
        p_star_two_rarefaction_vacuum [of "\<lparr>gamma = 7 / 5\<rparr>" 7 2 5 1 7 2 5 1]
  by (simp add: admissible_def positive_part_def)


subsection \<open>The closed form of the wave speeds\<close>

text \<open>
  C6: for admissible states, an adiabatic exponent above 1 and any pressure estimate
  \<open>p_star\<close>, the result of \<open>compute_lambda\<close> is the maximum of the positive part of
  \<open>lambda3_plus\<close> of the right state and the negative part of \<open>lambda1_minus\<close> of the
  left state, the one-sided speeds being
  \<open>u \<plusminus> a * sqrt (1 + (gamma + 1) / (2 * gamma) * positive_part ((p_star - p) / p))\<close>;
  the estimate \<open>lambda_max\<close> is never negative.
\<close>

theorem compute_lambda_closed_form:
  assumes "1 < gamma hs"
    and "admissible (rho_i, u_i, p_i, a_i)" and "admissible (rho_j, u_j, p_j, a_j)"
  shows "compute_lambda hs (rho_i, u_i, p_i, a_i) (rho_j, u_j, p_j, a_j) p_star =
           max (positive_part (lambda3_plus hs (rho_j, u_j, p_j, a_j) p_star))
               (negative_part (lambda1_minus hs (rho_i, u_i, p_i, a_i) p_star)) \<and>
         compute_lambda hs (rho_i, u_i, p_i, a_i) (rho_j, u_j, p_j, a_j) p_star =
           max (positive_part
                  (u_j + a_j * sqrt (1 + (gamma hs + 1) / (2 * gamma hs) *
                                           positive_part ((p_star - p_j) / p_j))))
               (negative_part
                  (u_i - a_i * sqrt (1 + (gamma hs + 1) / (2 * gamma hs) *
                                           positive_part ((p_star - p_i) / p_i)))) \<and>
         0 \<le> compute_lambda hs (rho_i, u_i, p_i, a_i) (rho_j, u_j, p_j, a_j) p_star \<and>
         0 \<le> compute hs (rho_i, u_i, p_i, a_i) (rho_j, u_j, p_j, a_j)"
proof (intro conjI)
  show "compute_lambda hs (rho_i, u_i, p_i, a_i) (rho_j, u_j, p_j, a_j) p_star =
           max (positive_part (lambda3_plus hs (rho_j, u_j, p_j, a_j) p_star))
               (negative_part (lambda1_minus hs (rho_i, u_i, p_i, a_i) p_star))"
    by (simp add: compute_lambda_def Let_def)
  show "compute_lambda hs (rho_i, u_i, p_i, a_i) (rho_j, u_j, p_j, a_j) p_star =
           max (positive_part
                  (u_j + a_j * sqrt (1 + (gamma hs + 1) / (2 * gamma hs) *
                                           positive_part ((p_star - p_j) / p_j))))
               (negative_part
                  (u_i - a_i * sqrt (1 + (gamma hs + 1) / (2 * gamma hs) *
                                           positive_part ((p_star - p_i) / p_i))))"
    unfolding compute_lambda_def lambda1_minus_def lambda3_plus_def Let_def
      gamma_inverse_def factor_eq
    by simp
  show "0 \<le> compute_lambda hs (rho_i, u_i, p_i, a_i) (rho_j, u_j, p_j, a_j) p_star"
    by (rule compute_lambda_nonneg)
  show "0 \<le> compute hs (rho_i, u_i, p_i, a_i) (rho_j, u_j, p_j, a_j)"
    unfolding compute_zero_iteration by (rule compute_lambda_nonneg)
qed

theorem compute_lambda_closed_form_witness:
  "1 < gamma \<lparr>gamma = 7 / 5\<rparr> \<and> admissible (7, 2, 5, 1) \<and> admissible (28, 1, 5, 1 / 2) \<and>
   compute_lambda \<lparr>gamma = 7 / 5\<rparr> (7, 2, 5, 1) (28, 1, 5, 1 / 2) 5 = 3 / 2"
  using compute_lambda_closed_form [of "\<lparr>gamma = 7 / 5\<rparr>" 7 2 5 1 28 1 5 "1 / 2" 5]
  by (simp add: admissible_def positive_part_def negative_part_def)


subsection \<open>A uniform state\<close>

text \<open>
  C8: when the two states given to the estimator are the same admissible state
  \<open>(rho, u, p, a)\<close>, \<open>lambda_max\<close> is the bound of the local speed of sound,
  \<open>max (positive_part (u + a)) (negative_part (u - a))\<close>; in exact arithmetic the two are
  equal.
\<close>

theorem compute_uniform_state:
  assumes "1 < gamma hs" and "admissible (rho, u, p, a)"
  shows "compute hs (rho, u, p, a) (rho, u, p, a) =
           max (positive_part (u + a)) (negative_part (u - a))"
  using assms
  by (simp add: compute_def Let_def compare_and_apply_mask_less_than_def
       p_star_two_rarefaction_def phi_of_p_max_def pressure_def admissible_def
       positive_part_def ryujin_pow_def compute_lambda_def lambda1_minus_def lambda3_plus_def)

theorem compute_uniform_state_witness:
  "1 < gamma \<lparr>gamma = 7 / 5\<rparr> \<and> admissible (7, 2, 5, 1) \<and>
   compute \<lparr>gamma = 7 / 5\<rparr> (7, 2, 5, 1) (7, 2, 5, 1) = 3"
  using compute_uniform_state [of "\<lparr>gamma = 7 / 5\<rparr>" 7 2 5 1]
  by (simp add: admissible_def positive_part_def negative_part_def)


section \<open>Properties of the Newton refinement\<close>

lemma newton_iteration_bound:
  "newton_iteration budget refine converged p i = Some (p', i') \<Longrightarrow> i' \<le> i + budget"
proof (induction budget arbitrary: p i)
  case 0
  then show ?case by simp
next
  case (Suc budget)
  show ?case
  proof (cases "converged (refine p)")
    case True
    with Suc.prems show ?thesis by (simp add: Let_def)
  next
    case False
    with Suc.prems
    have "newton_iteration budget refine converged (refine p) (Suc i) = Some (p', i')"
      by (simp add: Let_def)
    from Suc.IH[OF this] show ?thesis by simp
  qed
qed

lemma grendel_iterations_bounded:
  "snd (snd (grendel_compute max_iter refine converged hs ri rj)) \<le> max_iter"
proof (cases "newton_iteration max_iter refine converged (zero_iteration_pressure hs ri rj) 0")
  case None
  then show ?thesis by (simp add: grendel_compute_def Let_def)
next
  case (Some r)
  obtain p' i' where r: "r = (p', i')" by (cases r)
  from newton_iteration_bound[of max_iter refine converged _ 0 p' i'] Some r
  have "i' \<le> max_iter" by simp
  with Some r show ?thesis by (simp add: grendel_compute_def Let_def)
qed

text \<open>
  C9: the Newton refinement is bounded by the compile-time iteration count, which is 0
  by default. The solver is a total function that reports at most \<open>max_iter\<close> iterations
  whatever the refinement step does, and with the default count it performs no Newton
  iteration: it returns the closed-form bound, the pressure the closed form selected and
  the iteration count 0.
\<close>

theorem grendel_compute_default_zero_iterations:
  "newton_max_iter = 0 \<and>
   grendel_compute newton_max_iter refine converged hs riemann_data_i riemann_data_j =
     (compute hs riemann_data_i riemann_data_j,
      zero_iteration_pressure hs riemann_data_i riemann_data_j, 0) \<and>
   snd (snd (grendel_compute max_iter refine converged hs riemann_data_i riemann_data_j))
     \<le> max_iter"
proof (intro conjI)
  show "newton_max_iter = 0"
    by (simp add: newton_max_iter_def)
  show "grendel_compute newton_max_iter refine converged hs riemann_data_i riemann_data_j =
          (compute hs riemann_data_i riemann_data_j,
           zero_iteration_pressure hs riemann_data_i riemann_data_j, 0)"
    by (simp add: newton_max_iter_def grendel_compute_def Let_def compute_zero_iteration)
  show "snd (snd (grendel_compute max_iter refine converged hs riemann_data_i riemann_data_j))
          \<le> max_iter"
    by (rule grendel_iterations_bounded)
qed


section \<open>Properties of the time step\<close>

text \<open>
  C3: when the admissibility check or the tolerance check fails at the end of a step, the
  configured strategy decides. Under \<open>warn\<close> the step completes with the update it
  performed and counts one warning; under \<open>raise_exception\<close> it is aborted with the
  \<open>Restart\<close> signal, which carries no step size, and the restart counter grows by
  exactly one.
\<close>

theorem step_violation_strategy:
  assumes "\<not> admissibility_ok \<or> \<not> tolerance_ok"
  shows "(id_violation_strategy em = warn \<longrightarrow>
            step em tau_max admissibility_ok tolerance_ok tau =
              (Inr \<lparr>tau_performed = (if tau = 0 then tau_max else tau),
                    return_value = tau_max\<rparr>,
               em\<lparr>n_warnings := n_warnings em + 1\<rparr>)) \<and>
         (id_violation_strategy em = raise_exception \<longrightarrow>
            step em tau_max admissibility_ok tolerance_ok tau =
              (Inl Restart, em\<lparr>n_restarts := n_restarts em + 1\<rparr>))"
  using assms by (auto simp add: step_def Let_def)

theorem step_violation_strategy_witness:
  "step \<lparr>id_violation_strategy = raise_exception, n_restarts = 4, n_warnings = 0\<rparr>
        1 True False (3 / 2) =
     (Inl Restart, \<lparr>id_violation_strategy = raise_exception, n_restarts = 5, n_warnings = 0\<rparr>) \<and>
   step \<lparr>id_violation_strategy = warn, n_restarts = 4, n_warnings = 0\<rparr>
        1 False True (3 / 2) =
     (Inr \<lparr>tau_performed = 3 / 2, return_value = 1\<rparr>,
      \<lparr>id_violation_strategy = warn, n_restarts = 4, n_warnings = 1\<rparr>)"
  using step_violation_strategy
          [of True False "\<lparr>id_violation_strategy = raise_exception, n_restarts = 4, n_warnings = 0\<rparr>"
              1 "3 / 2"]
        step_violation_strategy
          [of False True "\<lparr>id_violation_strategy = warn, n_restarts = 4, n_warnings = 0\<rparr>"
              1 "3 / 2"]
  by simp


section \<open>Properties of the paraboloid initial state\<close>






end
